theory Spec2Isabelle
  imports Main "HOL-Library.Monad_Syntax"
begin

section \<open>Bytes, strings and errors\<close>

text \<open>
  A Go string is a sequence of bytes, a \<^typ>\<open>string\<close> here.  The protocol's line
  separator is carriage return, line feed.
\<close>

definition CR :: char where
  "CR = CHR 0x0D"

definition LF :: char where
  "LF = CHR 0x0A"

definition CRLF :: string where
  "CRLF = [CR, LF]"

text \<open>The two causes of a \<^verbatim>\<open>*strconv.NumError\<close>.\<close>

datatype num_err = ErrSyntax | ErrRange

text \<open>
  The error values of the package.  \<open>NetError\<close> is an error of the operating system's
  network stack, told apart by its text; \<open>Wrapped\<close> is \<^verbatim>\<open>fmt.Errorf("...: %w", err)\<close>;
  \<open>Panic\<close> is a run-time fault (an index or a slice bound out of range), which unwinds
  the caller like an error that nobody handles.
\<close>

datatype error =
    EOF
  | NetError string
  | NumError string num_err
  | UnknownCmdReply string string
  | UnknownReply string
  | AlreadyControlled
  | FailedTakeControl string
  | FailedReleaseControl string
  | Wrapped string error
  | Panic

section \<open>The operations of Go and of its standard library that the client uses\<close>

text \<open>Go's slice expression \<^verbatim>\<open>s[lo:hi]\<close>: a run-time fault unless \<open>0 \<le> lo \<le> hi \<le> len(s)\<close>.\<close>

definition slice :: "string \<Rightarrow> int \<Rightarrow> int \<Rightarrow> string option" where
  "slice s lo hi =
     (if 0 \<le> lo \<and> lo \<le> hi \<and> hi \<le> int (length s)
      then Some (drop (nat lo) (take (nat hi) s)) else None)"

text \<open>\<^verbatim>\<open>strings.HasPrefix\<close> and \<^verbatim>\<open>strings.HasSuffix\<close>.\<close>

definition HasPrefix :: "string \<Rightarrow> string \<Rightarrow> bool" where
  "HasPrefix s p = (take (length p) s = p)"

definition HasSuffix :: "string \<Rightarrow> string \<Rightarrow> bool" where
  "HasSuffix s suf = (length suf \<le> length s \<and> drop (length s - length suf) s = suf)"

text \<open>
  \<^verbatim>\<open>strings.SplitN(s, sep, 2)\<close> for a separator of one byte: the text before the first
  separator and the text after it, or the whole string alone when it has no separator.
\<close>

definition SplitN2 :: "string \<Rightarrow> char \<Rightarrow> string list" where
  "SplitN2 s sep =
     (if sep \<in> set s
      then [takeWhile (\<lambda>c. c \<noteq> sep) s, drop 1 (dropWhile (\<lambda>c. c \<noteq> sep) s)]
      else [s])"

text \<open>\<^verbatim>\<open>strings.Split(s, sep)\<close> for a separator of one byte: never an empty list.\<close>

fun Split :: "string \<Rightarrow> char \<Rightarrow> string list" where
  "Split [] sep = [[]]"
| "Split (c # cs) sep =
     (if c = sep then [] # Split cs sep
      else (case Split cs sep of
              [] \<Rightarrow> [[c]]
            | l # ls \<Rightarrow> (c # l) # ls))"

text \<open>\<^verbatim>\<open>strings.TrimRight(s, cutset)\<close> for a cutset of one byte.\<close>

definition TrimRight :: "string \<Rightarrow> char \<Rightarrow> string" where
  "TrimRight s c = rev (dropWhile (\<lambda>x. x = c) (rev s))"

text \<open>
  \<^verbatim>\<open>strings.IndexRune\<close> for a rune below 128, and \<^verbatim>\<open>bytes.IndexByte\<close>: the index of
  the first occurrence, or \<open>-1\<close>.
\<close>

definition IndexByte :: "string \<Rightarrow> char \<Rightarrow> int" where
  "IndexByte s c = (if c \<in> set s then int (length (takeWhile (\<lambda>x. x \<noteq> c) s)) else - 1)"

text \<open>The decimal digits, the class \<^verbatim>\<open>\d\<close> of Go's regular expressions.\<close>

definition is_digit :: "char \<Rightarrow> bool" where
  "is_digit c = (48 \<le> (of_char c :: nat) \<and> (of_char c :: nat) \<le> 57)"

definition digit_val :: "char \<Rightarrow> int" where
  "digit_val c = of_char c - 48"

subsection \<open>\<^verbatim>\<open>strconv.Atoi\<close>\<close>

text \<open>
  \<^verbatim>\<open>strconv.ParseUint(s, 10, 64)\<close>: the digits are accumulated from the left; a byte
  that is no digit is a syntax error with value 0, an accumulator that leaves 64 bits is
  a range error with the largest value, whichever comes first.  The \<^verbatim>\<open>uint64\<close>
  accumulator is an \<^typ>\<open>int\<close> that the two checks keep below \<open>2 ^ 64\<close>.
\<close>

definition maxUint64 :: int where
  "maxUint64 = 18446744073709551615"

fun ParseUint_loop :: "int \<Rightarrow> string \<Rightarrow> int \<times> num_err option" where
  "ParseUint_loop n [] = (n, None)"
| "ParseUint_loop n (c # cs) =
     (if \<not> is_digit c then (0, Some ErrSyntax)
      else if n \<ge> maxUint64 div 10 + 1 then (maxUint64, Some ErrRange)
      else (let n1 = n * 10 + digit_val c
            in if n1 > maxUint64 then (maxUint64, Some ErrRange)
               else ParseUint_loop n1 cs))"

definition ParseUint :: "string \<Rightarrow> int \<times> num_err option" where
  "ParseUint s = (if s = [] then (0, Some ErrSyntax) else ParseUint_loop 0 s)"

text \<open>
  \<^verbatim>\<open>strconv.ParseInt(s, 10, 0)\<close> where \<^verbatim>\<open>int\<close> has 64 bits: one leading sign, then
  \<open>ParseUint\<close>; a magnitude beyond the signed range is a range error with the nearest
  bound as value.
\<close>

definition ParseInt :: "string \<Rightarrow> int \<times> num_err option" where
  "ParseInt s0 =
     (case s0 of
        [] \<Rightarrow> (0, Some ErrSyntax)
      | c # cs \<Rightarrow>
          (let neg = (c = CHR ''-'');
               s = (if c = CHR ''+'' \<or> c = CHR ''-'' then cs else s0)
           in case ParseUint s of
                (un, Some ErrSyntax) \<Rightarrow> (0, Some ErrSyntax)
              | (un, _) \<Rightarrow>
                  if \<not> neg \<and> un \<ge> 9223372036854775808
                    then (9223372036854775807, Some ErrRange)
                  else if neg \<and> un > 9223372036854775808
                    then (- 9223372036854775808, Some ErrRange)
                  else (if neg then - un else un, None)))"

text \<open>
  \<^verbatim>\<open>strconv.Atoi\<close>: its fast path for short strings computes what \<open>ParseInt\<close> does;
  the error names the function and the offending text.  Go returns the value and the error
  together, and a caller may store the value before it looks at the error.
\<close>

definition Atoi :: "string \<Rightarrow> int \<times> error option" where
  "Atoi s = (case ParseInt s of (v, e) \<Rightarrow> (v, map_option (NumError s) e))"

subsection \<open>\<^verbatim>\<open>physic.Distance\<close>\<close>

text \<open>
  \<^verbatim>\<open>physic.Distance\<close> of periph.io is an \<^verbatim>\<open>int64\<close> that counts nanometres.  Its
  arithmetic wraps around; its division truncates towards zero.
\<close>

definition wrap64 :: "int \<Rightarrow> int" where
  "wrap64 x = (x + 9223372036854775808) mod 18446744073709551616 - 9223372036854775808"

definition quot64 :: "int \<Rightarrow> int \<Rightarrow> int" where
  "quot64 a b = wrap64 (sgn a * sgn b * (\<bar>a\<bar> div \<bar>b\<bar>))"

definition NanoMetre :: int where
  "NanoMetre = 1"

definition MicroMetre :: int where
  "MicroMetre = 1000 * NanoMetre"

definition MilliMetre :: int where
  "MilliMetre = 1000 * MicroMetre"

section \<open>The distance codec\<close>

text \<open>The loop \<^verbatim>\<open>for j := 0; j < len(s[i+1:]); j++ { ff /= 10 }\<close> of \<open>parseDistance\<close>.\<close>

fun ff_loop :: "nat \<Rightarrow> int \<Rightarrow> int" where
  "ff_loop 0 ff = ff"
| "ff_loop (Suc j) ff = ff_loop j (quot64 ff 10)"

text \<open>
  \<open>parseDistance\<close>.  \<^verbatim>\<open>s[0]\<close> is read before anything else, a run-time fault on
  the empty string; the slices \<^verbatim>\<open>s[1:]\<close>, \<^verbatim>\<open>s[:i]\<close> and \<^verbatim>\<open>s[i+1:]\<close> are checked
  against the length like every slice of Go.
\<close>

definition parseDistance :: "string \<Rightarrow> error + int" where
  "parseDistance s0 =
     (if \<not> 0 < length s0 then Inl Panic
      else
        let neg = (s0 ! 0 = CHR ''-'')
        in case (if neg then slice s0 1 (int (length s0)) else Some s0) of
             None \<Rightarrow> Inl Panic
           | Some s \<Rightarrow>
               (let i = IndexByte s (CHR ''.'');
                    r = (if i \<noteq> - 1 then
                           (case slice s 0 i of
                              None \<Rightarrow> Inl Panic
                            | Some ip \<Rightarrow>
                                (case Atoi ip of
                                   (v, Some err) \<Rightarrow> Inl err
                                 | (v, None) \<Rightarrow>
                                     (case slice s (i + 1) (int (length s)) of
                                        None \<Rightarrow> Inl Panic
                                      | Some fp \<Rightarrow>
                                          (case Atoi fp of
                                             (f, Some err) \<Rightarrow> Inl err
                                           | (f, None) \<Rightarrow>
                                               (let ff = ff_loop (length fp) MilliMetre
                                                in Inr (wrap64 (wrap64 (MilliMetre * v)
                                                                + wrap64 (ff * f))))))))
                         else
                           (case Atoi s of
                              (v, Some err) \<Rightarrow> Inl err
                            | (v, None) \<Rightarrow> Inr (wrap64 (MilliMetre * v))))
                in case r of
                     Inl err \<Rightarrow> Inl err
                   | Inr out \<Rightarrow> Inr (if neg then wrap64 (out * (- 1)) else out)))"

section \<open>The byte stream\<close>

text \<open>
  \<open>Dev.conn\<close> is an \<^verbatim>\<open>io.ReadWriteCloser\<close>.  Its state lists what the peer and the
  network will answer: \<open>inbox\<close> holds, in order, the segments that later calls of
  \<open>Read\<close> deliver, each with the error that \<open>Read\<close> reports with its last byte;
  an empty \<open>inbox\<close> is a stream that the peer has closed, where \<open>Read\<close> returns no
  byte and \<^verbatim>\<open>io.EOF\<close>.  \<open>wscript\<close> holds the outcomes of the next calls of
  \<open>Write\<close> (success once it is used up), \<open>outbox\<close> what has been written,
  \<open>close_err\<close> what \<open>Close\<close> will return.
\<close>

record stream =
  inbox :: "(string \<times> error option) list"
  wscript :: "error option list"
  outbox :: "string list"
  close_err :: "error option"
  closed :: bool

definition conn_Write :: "string \<Rightarrow> stream \<Rightarrow> error option \<times> stream" where
  "conn_Write p s =
     (case wscript s of
        [] \<Rightarrow> (None, s\<lparr>outbox := outbox s @ [p]\<rparr>)
      | None # ws \<Rightarrow> (None, s\<lparr>wscript := ws, outbox := outbox s @ [p]\<rparr>)
      | Some err # ws \<Rightarrow> (Some err, s\<lparr>wscript := ws\<rparr>))"

text \<open>
  \<open>Read\<close> into a buffer of \<open>cap\<close> bytes returns at most \<open>cap\<close> bytes: the rest of
  a longer segment stays for the next call.
\<close>

definition conn_Read :: "nat \<Rightarrow> stream \<Rightarrow> (string \<times> error option) \<times> stream" where
  "conn_Read cap s =
     (case inbox s of
        [] \<Rightarrow> (([], Some EOF), s)
      | (chunk, e) # rest \<Rightarrow>
          if length chunk \<le> cap then ((chunk, e), s\<lparr>inbox := rest\<rparr>)
          else ((take cap chunk, None), s\<lparr>inbox := (drop cap chunk, e) # rest\<rparr>))"

definition conn_Close :: "stream \<Rightarrow> error option \<times> stream" where
  "conn_Close s = (close_err s, s\<lparr>closed := True\<rparr>)"

text \<open>What is left to read: the measure of the read loop.\<close>

definition pending :: "stream \<Rightarrow> nat" where
  "pending s = sum_list (map (\<lambda>(chunk, e). Suc (length chunk)) (inbox s))"

section \<open>The command transport\<close>

text \<open>
  The read loop of \<open>sendCommand\<close>, the same in both generations of the client:
  \<^verbatim>\<open>
  resp := ""
  b := [4096]byte{}
  for {
      n, err := d.conn.Read(b[:])
      if resp += string(b[:n]); err != nil { return resp, err }
      if n != len(b) { break }
  }
  \<close>
  The result is the accumulated text and the error that ended the loop, if one did.
\<close>

function readLoop :: "string \<Rightarrow> stream \<Rightarrow> (string \<times> error option) \<times> stream" where
  "readLoop resp d =
     (case conn_Read 4096 d of
        ((chunk, err), d') \<Rightarrow>
          if err \<noteq> None then ((resp @ chunk, err), d')
          else if length chunk \<noteq> 4096 then ((resp @ chunk, None), d')
          else readLoop (resp @ chunk) d')"
  by pat_completeness auto
termination
  by (relation "measure (\<lambda>(resp, d). pending d)")
     (auto simp: conn_Read_def pending_def split: list.splits if_splits)

declare readLoop.simps [simp del]

text \<open>The prefix that wraps the reply to \<open>cmd\<close>: \<open>c\<close> is \<^verbatim>\<open>strings.SplitN(cmd, " ", 2)[0]\<close>.\<close>

definition cmd_token :: "string \<Rightarrow> string" where
  "cmd_token cmd = hd (SplitN2 cmd (CHR '' ''))"

definition reply_prefix :: "string \<Rightarrow> string" where
  "reply_prefix cmd = ''CMD '' @ cmd_token cmd @ '' Received.'' @ CRLF"

definition reply_suffix :: string where
  "reply_suffix = CRLF @ ''ok'' @ CRLF"

text \<open>
  The second half of \<open>sendCommand\<close> in the later generation: verify the wrap, cut it,
  and cut one more line separator from the end.
\<close>

definition trimReply :: "string \<Rightarrow> string \<Rightarrow> string \<times> error option" where
  "trimReply cmd resp =
     (let c = cmd_token cmd; prefix = reply_prefix cmd
      in if \<not> HasPrefix resp prefix then (resp, Some (UnknownCmdReply c resp))
         else if \<not> HasSuffix resp reply_suffix then (resp, Some (UnknownCmdReply c resp))
         else (case slice resp (int (length prefix)) (int (length resp) - int (length (''ok'' @ CRLF))) of
                 None \<Rightarrow> ([], Some Panic)
               | Some line \<Rightarrow>
                   (if HasSuffix line CRLF
                    then take (length line - length CRLF) line else line, None)))"

text \<open>The same in the first generation (\<^verbatim>\<open>ffa3.go\<close>), which stops after the slice.\<close>

definition trimReply_gen1 :: "string \<Rightarrow> string \<Rightarrow> string \<times> error option" where
  "trimReply_gen1 cmd resp =
     (let c = cmd_token cmd; prefix = reply_prefix cmd
      in if \<not> HasPrefix resp prefix then (resp, Some (UnknownCmdReply c resp))
         else if \<not> HasSuffix resp reply_suffix then (resp, Some (UnknownCmdReply c resp))
         else (case slice resp (int (length prefix)) (int (length resp) - int (length (''ok'' @ CRLF))) of
                 None \<Rightarrow> ([], Some Panic)
               | Some line \<Rightarrow> (line, None)))"

text \<open>
  \<open>sendCommand\<close>: write \<^verbatim>\<open>"~" + cmd + "\n"\<close>, run the read loop, verify and trim.
  Go returns the text and the error together.
\<close>

definition sendCommand :: "string \<Rightarrow> stream \<Rightarrow> (string \<times> error option) \<times> stream" where
  "sendCommand cmd d =
     (case conn_Write (''~'' @ cmd @ [LF]) d of
        (Some err, d1) \<Rightarrow> (([], Some err), d1)
      | (None, d1) \<Rightarrow>
          (case readLoop [] d1 of
             ((resp, Some err), d2) \<Rightarrow> ((resp, Some err), d2)
           | ((resp, None), d2) \<Rightarrow> (trimReply cmd resp, d2)))"

definition sendCommand_gen1 :: "string \<Rightarrow> stream \<Rightarrow> (string \<times> error option) \<times> stream" where
  "sendCommand_gen1 cmd d =
     (case conn_Write (''~'' @ cmd @ [LF]) d of
        (Some err, d1) \<Rightarrow> (([], Some err), d1)
      | (None, d1) \<Rightarrow>
          (case readLoop [] d1 of
             ((resp, Some err), d2) \<Rightarrow> ((resp, Some err), d2)
           | ((resp, None), d2) \<Rightarrow> (trimReply_gen1 cmd resp, d2)))"

subsection \<open>The handshake\<close>

definition sendHello :: "stream \<Rightarrow> error option \<times> stream" where
  "sendHello d =
     (case sendCommand ''M601 S1'' d of
        ((resp, Some err), d') \<Rightarrow> (Some err, d')
      | ((resp, None), d') \<Rightarrow>
          if resp = ''Control failed.'' then (Some AlreadyControlled, d')
          else if resp \<noteq> ''Control Success.'' then (Some (FailedTakeControl resp), d')
          else (None, d'))"

definition sendBye :: "stream \<Rightarrow> error option \<times> stream" where
  "sendBye d =
     (case sendCommand ''M602'' d of
        ((resp, Some err), d') \<Rightarrow> (Some err, d')
      | ((resp, None), d') \<Rightarrow>
          if resp \<noteq> ''Control Release.'' then (Some (FailedReleaseControl resp), d')
          else (None, d'))"

text \<open>\<open>Close\<close>: the bye command, then the stream's own \<open>Close\<close> whatever the bye did.\<close>

definition Close :: "stream \<Rightarrow> error option \<times> stream" where
  "Close d =
     (case sendBye d of
        (err, d1) \<Rightarrow>
          (case conn_Close d1 of
             (err2, d2) \<Rightarrow> (if err \<noteq> None then err else err2, d2)))"

text \<open>
  \<open>Connect\<close>: \<open>dial\<close> stands for \<^verbatim>\<open>net.Dial("tcp", _)\<close>, an error or a fresh stream
  for each address.  The result is Go's return value (the device, which is its stream, or
  the error) and the last state of the stream that was dialled, if one was.
\<close>

definition Connect :: "(string \<Rightarrow> error + stream) \<Rightarrow> string \<Rightarrow> (error + stream) \<times> stream option" where
  "Connect dial ip =
     (case dial (ip @ '':8899'') of
        Inl err \<Rightarrow> (Inl err, None)
      | Inr conn \<Rightarrow>
          (case sendHello conn of
             (Some err, d1) \<Rightarrow> (case Close d1 of (_, d2) \<Rightarrow> (Inl err, Some d2))
           | (None, d1) \<Rightarrow> (Inr d1, Some d1)))"

section \<open>Regular expressions of the reply parsers\<close>

text \<open>
  Each pattern of the client is anchored at both ends and is a sequence of literals and
  of digit runs \<^verbatim>\<open>\d+\<close>, every run followed by a literal that is no digit or by the end of
  the text.  Such a pattern matches in one way at most, with every run as long as it can
  be, so a matcher that reads the text from the left computes
  \<^verbatim>\<open>FindStringSubmatch\<close>: \<open>None\<close> is Go's \<^verbatim>\<open>nil\<close>, otherwise the submatches.
\<close>

definition lit :: "string \<Rightarrow> string \<Rightarrow> string option" where
  "lit p s = (if HasPrefix s p then Some (drop (length p) s) else None)"

definition digits1 :: "string \<Rightarrow> (string \<times> string) option" where
  "digits1 s =
     (let ds = takeWhile is_digit s
      in if ds = [] then None else Some (ds, dropWhile is_digit s))"

definition at_end :: "string \<Rightarrow> unit option" where
  "at_end s = (if s = [] then Some () else None)"

text \<open>The group \<^verbatim>\<open>(\-?\d+(?:\.\d+))\<close>: the inner group has no quantifier.\<close>

definition decimal_group :: "string \<Rightarrow> (string \<times> string) option" where
  "decimal_group s =
     do {
       let sg = (if HasPrefix s ''-'' then ''-'' else []);
       (ip, r1) \<leftarrow> digits1 (drop (length sg) s);
       r2 \<leftarrow> lit ''.'' r1;
       (fp, r3) \<leftarrow> digits1 r2;
       Some (sg @ ip @ ''.'' @ fp, r3)
     }"

text \<open>\<^verbatim>\<open>^X:(\-?\d+(?:\.\d+)) Y:(\-?\d+(?:\.\d+)) Z:(\-?\d+(?:\.\d+)) A:(\d+) B:(\d+)$\<close>\<close>

definition re_M114 :: "string \<Rightarrow> (string \<times> string \<times> string \<times> string \<times> string) option" where
  "re_M114 s =
     do {
       r \<leftarrow> lit ''X:'' s;
       (x, r) \<leftarrow> decimal_group r;
       r \<leftarrow> lit '' Y:'' r;
       (y, r) \<leftarrow> decimal_group r;
       r \<leftarrow> lit '' Z:'' r;
       (z, r) \<leftarrow> decimal_group r;
       r \<leftarrow> lit '' A:'' r;
       (a, r) \<leftarrow> digits1 r;
       r \<leftarrow> lit '' B:'' r;
       (b, r) \<leftarrow> digits1 r;
       _ \<leftarrow> at_end r;
       Some (x, y, z, a, b)
     }"

text \<open>\<^verbatim>\<open>^T(\d+):(\d+) /(\d+) B:(\d+)/(\d+)$\<close>\<close>

definition re_M105 :: "string \<Rightarrow> (string \<times> string \<times> string \<times> string \<times> string) option" where
  "re_M105 s =
     do {
       r \<leftarrow> lit ''T'' s;
       (n, r) \<leftarrow> digits1 r;
       r \<leftarrow> lit '':'' r;
       (t, r) \<leftarrow> digits1 r;
       r \<leftarrow> lit '' /'' r;
       (tt, r) \<leftarrow> digits1 r;
       r \<leftarrow> lit '' B:'' r;
       (b, r) \<leftarrow> digits1 r;
       r \<leftarrow> lit ''/'' r;
       (bt, r) \<leftarrow> digits1 r;
       _ \<leftarrow> at_end r;
       Some (n, t, tt, b, bt)
     }"

text \<open>\<^verbatim>\<open>^X: (\d+) Y: (\d+) Z: (\d+)$\<close>\<close>

definition re_M115 :: "string \<Rightarrow> (string \<times> string \<times> string) option" where
  "re_M115 s =
     do {
       r \<leftarrow> lit ''X: '' s;
       (x, r) \<leftarrow> digits1 r;
       r \<leftarrow> lit '' Y: '' r;
       (y, r) \<leftarrow> digits1 r;
       r \<leftarrow> lit '' Z: '' r;
       (z, r) \<leftarrow> digits1 r;
       _ \<leftarrow> at_end r;
       Some (x, y, z)
     }"

section \<open>The reply parsers\<close>

text \<open>
  The records that the caller passes by pointer.  A parser writes a field the moment it
  has decoded it, so it is a function from the caller's record to the error and the
  record as the call leaves it.  Distances are \<^verbatim>\<open>physic.Distance\<close>, temperatures
  \<^verbatim>\<open>physic.Temperature\<close>, both \<^verbatim>\<open>int64\<close>.
\<close>

record Info =
  Info_Type :: string
  Info_Name :: string
  Info_Firmware :: string
  Info_Serial :: string
  Info_X :: int
  Info_Y :: int
  Info_Z :: int
  Info_ExtruderCount :: int
  Info_MacAddr :: string

record Position =
  Position_X :: int
  Position_Y :: int
  Position_Z :: int
  Position_A :: int
  Position_B :: int

record Temperatures =
  Extruder :: int
  Bed :: int
  Chamber :: int

subsection \<open>\<open>QueryPrinterInfo\<close>\<close>

text \<open>The body of the loop over the lines of the reply: one \<^verbatim>\<open>switch\<close>.\<close>

definition infoLine :: "string \<Rightarrow> Info \<Rightarrow> error option \<times> Info" where
  "infoLine line0 i =
     (let line = TrimRight line0 CR
      in if HasPrefix line ''Machine Type: ''
           then (None, i\<lparr>Info_Type := drop (length ''Machine Type: '') line\<rparr>)
         else if HasPrefix line ''Machine Name: ''
           then (None, i\<lparr>Info_Name := drop (length ''Machine Name: '') line\<rparr>)
         else if HasPrefix line ''Firmware: ''
           then (None, i\<lparr>Info_Firmware := drop (length ''Firmware: '') line\<rparr>)
         else if HasPrefix line ''SN: ''
           then (None, i\<lparr>Info_Serial := drop (length ''SN: '') line\<rparr>)
         else if HasPrefix line ''X: '' then
           (case re_M115 line of
              None \<Rightarrow> (Some (UnknownReply line), i)
            | Some (mx, my, mz) \<Rightarrow>
                (case Atoi mx of
                   (v, Some err) \<Rightarrow> (Some err, i)
                 | (v, None) \<Rightarrow>
                     (let i1 = i\<lparr>Info_X := wrap64 (MilliMetre * v)\<rparr>
                      in case Atoi my of
                           (v, Some err) \<Rightarrow> (Some err, i1)
                         | (v, None) \<Rightarrow>
                             (let i2 = i1\<lparr>Info_Y := wrap64 (MilliMetre * v)\<rparr>
                              in case Atoi mz of
                                   (v, Some err) \<Rightarrow> (Some err, i2)
                                 | (v, None) \<Rightarrow>
                                     (None, i2\<lparr>Info_Z := wrap64 (MilliMetre * v)\<rparr>)))))
         else if HasPrefix line ''Tool Count: '' then
           (case Atoi (drop (length ''Tool Count: '') line) of
              (v, err) \<Rightarrow> (err, i\<lparr>Info_ExtruderCount := v\<rparr>))
         else if HasPrefix line ''Mac Address: ''
           then (None, i\<lparr>Info_MacAddr := drop (length ''Mac Address: '') line\<rparr>)
         else if line = [] then (None, i)
         else (Some (UnknownReply line), i))"

fun infoLines :: "string list \<Rightarrow> Info \<Rightarrow> error option \<times> Info" where
  "infoLines [] i = (None, i)"
| "infoLines (line # rest) i =
     (case infoLine line i of
        (Some err, i') \<Rightarrow> (Some err, i')
      | (None, i') \<Rightarrow> infoLines rest i')"

definition QueryPrinterInfo :: "Info \<Rightarrow> stream \<Rightarrow> (error option \<times> Info) \<times> stream" where
  "QueryPrinterInfo i d =
     (case sendCommand ''M115'' d of
        ((resp, Some err), d') \<Rightarrow> ((Some err, i), d')
      | ((resp, None), d') \<Rightarrow> (infoLines (Split resp LF) i, d'))"

subsection \<open>\<open>QueryExtruderPosition\<close>\<close>

text \<open>What \<open>QueryExtruderPosition\<close> does with the reply of \<^verbatim>\<open>M114\<close>.\<close>

definition positionReply :: "string \<Rightarrow> Position \<Rightarrow> error option \<times> Position" where
  "positionReply resp p =
     (case re_M114 resp of
        None \<Rightarrow> (Some (UnknownReply resp), p)
      | Some (mx, my, mz, ma, mb) \<Rightarrow>
          (case parseDistance mx of
             Inl err \<Rightarrow> (Some err, p)
           | Inr v \<Rightarrow>
               (let p1 = p\<lparr>Position_X := v\<rparr>
                in case parseDistance my of
                     Inl err \<Rightarrow> (Some err, p1)
                   | Inr v \<Rightarrow>
                       (let p2 = p1\<lparr>Position_Y := v\<rparr>
                        in case parseDistance mz of
                             Inl err \<Rightarrow> (Some err, p2)
                           | Inr v \<Rightarrow>
                               (let p3 = p2\<lparr>Position_Z := v\<rparr>
                                in case Atoi ma of
                                     (w, Some err) \<Rightarrow> (Some err, p3)
                                   | (w, None) \<Rightarrow>
                                       (let p4 = p3\<lparr>Position_A := w\<rparr>
                                        in case Atoi mb of
                                             (w, Some err) \<Rightarrow> (Some err, p4)
                                           | (w, None) \<Rightarrow>
                                               (None, p4\<lparr>Position_B := w\<rparr>)))))))"

definition QueryExtruderPosition :: "Position \<Rightarrow> stream \<Rightarrow> (error option \<times> Position) \<times> stream" where
  "QueryExtruderPosition p d =
     (case sendCommand ''M114'' d of
        ((resp, Some err), d') \<Rightarrow> ((Some err, p), d')
      | ((resp, None), d') \<Rightarrow> (positionReply resp p, d'))"

subsection \<open>\<open>QueryTemp\<close>\<close>

text \<open>
  \<open>QueryTemp\<close> matches the reply of \<^verbatim>\<open>M105\<close> against its pattern and returns; under
  the comment \<^verbatim>\<open>TODO(maruel): Parse.\<close> it assigns no field of \<open>t\<close>.
\<close>

definition QueryTemp :: "Temperatures \<Rightarrow> stream \<Rightarrow> (error option \<times> Temperatures) \<times> stream" where
  "QueryTemp t d =
     (case sendCommand ''M105'' d of
        ((resp, Some err), d') \<Rightarrow> ((Some err, t), d')
      | ((resp, None), d') \<Rightarrow>
          (case re_M105 resp of
             None \<Rightarrow> ((Some (UnknownReply resp), t), d')
           | Some m \<Rightarrow> ((None, t), d')))"

section \<open>Discovery\<close>

text \<open>
  \<open>Search\<close> starts one reader, sends the probe, waits for the reader or for the window
  \<open>d\<close>, closes the socket and joins the reader before it returns, so \<open>out\<close> is what the
  reader has collected from the results of its calls of \<open>ReadFromUDP\<close> up to the closing
  of the socket.  These results are \<open>udp_reads\<close>, in order: a datagram with its sender,
  or an error; once they are used up the socket is closed and the call fails.  The other
  fields are the outcomes of resolving the multicast address, of opening the socket, of
  sending the probe and of closing.
\<close>

datatype udp_read = Datagram string string | ReadFailed error

record udp_net =
  resolve_err :: "error option"
  listen_err :: "error option"
  udp_reads :: "udp_read list"
  writeto_err :: "error option"
  udp_close_err :: "error option"

record Found =
  Found_IP :: string
  Found_Name :: string

text \<open>The reader of \<open>Search\<close>: a buffer of 1024 bytes, the name ends at the first zero byte.\<close>

fun Search_reader :: "bool \<Rightarrow> udp_read list \<Rightarrow> Found list \<Rightarrow> Found list" where
  "Search_reader first [] out = out"
| "Search_reader first (ReadFailed err # rest) out = out"
| "Search_reader first (Datagram src payload # rest) out =
     (let b = take 1024 payload;
          i = IndexByte b (CHR 0x00);
          out' = (if i \<noteq> - 1 then out @ [\<lparr>Found_IP = src, Found_Name = take (nat i) b\<rparr>] else out)
      in if first then out' else Search_reader first rest out')"

definition Search :: "bool \<Rightarrow> nat \<Rightarrow> udp_net \<Rightarrow> Found list \<times> error option" where
  "Search first d net =
     (case resolve_err net of
        Some err \<Rightarrow> ([], Some (Wrapped ''failed to resolve 225.0.0.9:19000'' err))
      | None \<Rightarrow>
          (case listen_err net of
             Some err \<Rightarrow> ([], Some (Wrapped ''failed listening to UDP'' err))
           | None \<Rightarrow>
               (let out = Search_reader first (udp_reads net) []
                in case writeto_err net of
                     Some err \<Rightarrow> ([], Some (Wrapped ''failed to write magic packet'' err))
                   | None \<Rightarrow> (out, udp_close_err net))))"

text \<open>
  \<open>SearchNoListen\<close> of the first generation: the socket that sends the probe also
  receives; every datagram counts, whole; the window is one second; the error of
  \<open>Close\<close> is dropped.  \<open>listen_err\<close> is the outcome of \<^verbatim>\<open>net.DialUDP\<close> here.
\<close>

fun SearchNoListen_reader :: "udp_read list \<Rightarrow> Found list \<Rightarrow> Found list" where
  "SearchNoListen_reader [] out = out"
| "SearchNoListen_reader (ReadFailed err # rest) out = out"
| "SearchNoListen_reader (Datagram src payload # rest) out =
     SearchNoListen_reader rest (out @ [\<lparr>Found_IP = src, Found_Name = take 8192 payload\<rparr>])"

definition SearchNoListen :: "udp_net \<Rightarrow> Found list \<times> error option" where
  "SearchNoListen net =
     (case resolve_err net of
        Some err \<Rightarrow> ([], Some (Wrapped ''failed to resolve 225.0.0.9:19000'' err))
      | None \<Rightarrow>
          (case listen_err net of
             Some err \<Rightarrow> ([], Some err)
           | None \<Rightarrow>
               (let out = SearchNoListen_reader (udp_reads net) []
                in case writeto_err net of
                     Some err \<Rightarrow> ([], Some (Wrapped ''failed to write magic packet'' err))
                   | None \<Rightarrow> (out, None))))"

section \<open>Shapes of text\<close>

text \<open>A digit run: one decimal digit or more.\<close>

definition digits :: "string \<Rightarrow> bool" where
  "digits ds = (ds \<noteq> [] \<and> list_all is_digit ds)"

section \<open>Streams and records for concrete runs\<close>

text \<open>A stream as \<^verbatim>\<open>net.Dial\<close> returns it, with the segments that the printer will send.\<close>

definition dialled :: "(string \<times> error option) list \<Rightarrow> stream" where
  "dialled segs = \<lparr>inbox = segs, wscript = [], outbox = [], close_err = None, closed = False\<rparr>"

section \<open>Discovery: no reply is no error\<close>

lemma Search_reader_none:
  "\<forall>r \<in> set rs. \<exists>err. r = ReadFailed err \<Longrightarrow> Search_reader first rs out = out"
  by (cases rs) auto

lemma SearchNoListen_reader_none:
  "\<forall>r \<in> set rs. \<exists>err. r = ReadFailed err \<Longrightarrow> SearchNoListen_reader rs out = out"
  by (cases rs) auto

text \<open>
  C8.  When no datagram arrives before the socket is closed (every call of
  \<open>ReadFromUDP\<close> that returns does so with an error) and resolving, opening, sending and
  closing succeed, \<open>Search\<close> returns the empty list and no error, whatever \<open>first\<close> and
  the window are; so does \<open>SearchNoListen\<close> of the first generation.
\<close>

theorem Search_zero_replies:
  assumes "\<forall>r \<in> set (udp_reads net). \<exists>err. r = ReadFailed err"
    and "resolve_err net = None" and "listen_err net = None"
    and "writeto_err net = None" and "udp_close_err net = None"
  shows "Search first d net = ([], None) \<and> SearchNoListen net = ([], None)"
  using assms
  by (simp add: Search_def SearchNoListen_def Search_reader_none SearchNoListen_reader_none)

theorem Search_zero_replies_witness:
  "Search True 0
     \<lparr>resolve_err = None, listen_err = None,
      udp_reads = [ReadFailed (NetError ''use of closed network connection'')],
      writeto_err = None, udp_close_err = None\<rparr> = ([], None)
   \<and> SearchNoListen
     \<lparr>resolve_err = None, listen_err = None,
      udp_reads = [ReadFailed (NetError ''use of closed network connection'')],
      writeto_err = None, udp_close_err = None\<rparr> = ([], None)"
  by (rule Search_zero_replies) simp_all

section \<open>\<open>QueryTemp\<close> decodes nothing\<close>

lemma QueryTemp_record: "snd (fst (QueryTemp t d)) = t"
  by (simp add: QueryTemp_def split: prod.splits option.splits)

text \<open>
  C7.  On the reply \<^verbatim>\<open>T0:25 /0 B:24/0\<close>, which the pattern of \<open>QueryTemp\<close> matches,
  \<open>QueryTemp\<close> returns no error and the caller's record as it was: no temperature of the
  reply reaches it.
\<close>

theorem QueryTemp_record_untouched:
  "QueryTemp \<lparr>Extruder = 0, Bed = 0, Chamber = 0\<rparr>
     (dialled [(''CMD M105 Received.'' @ CRLF @ ''T0:25 /0 B:24/0'' @ CRLF @ ''ok'' @ CRLF, None)])
   = ((None, \<lparr>Extruder = 0, Bed = 0, Chamber = 0\<rparr>),
      \<lparr>inbox = [], wscript = [], outbox = [''~M105'' @ [LF]], close_err = None, closed = False\<rparr>)"
  by code_simp

section \<open>The slices of \<open>parseDistance\<close> stay in bounds\<close>

lemma slice_tail: "s \<noteq> [] \<Longrightarrow> slice s 1 (int (length s)) = Some (drop 1 s)"
  by (cases s) (auto simp: slice_def)

lemma slice_upto:
  "slice s 0 (IndexByte s c) = (if c \<in> set s then Some (takeWhile (\<lambda>x. x \<noteq> c) s) else None)"
  using length_takeWhile_le [of "\<lambda>x. x \<noteq> c" s]
  by (simp add: slice_def IndexByte_def takeWhile_eq_take [symmetric])

lemma takeWhile_shorter: "c \<in> set s \<Longrightarrow> length (takeWhile (\<lambda>x. x \<noteq> c) s) < length s"
  by (induction s) auto

lemma slice_after:
  "slice s (IndexByte s c + 1) (int (length s)) =
     (if c \<in> set s then Some (drop 1 (dropWhile (\<lambda>x. x \<noteq> c) s)) else Some s)"
  using takeWhile_shorter [of c s]
  by (auto simp: slice_def IndexByte_def dropWhile_eq_drop nat_add_distrib)

lemma IndexByte_found: "(IndexByte s c = - 1) = (c \<notin> set s)"
  by (simp add: IndexByte_def)

lemma Atoi_error: "Atoi t = (v, Some err) \<Longrightarrow> \<exists>k. err = NumError t k"
  by (auto simp: Atoi_def split: prod.splits)

lemma parseDistance_nonempty_eq:
  assumes "s0 \<noteq> []"
  shows "parseDistance s0 =
    (let neg = (hd s0 = CHR ''-''); s = (if neg then drop 1 s0 else s0)
     in case (if CHR ''.'' \<in> set s then
                (case Atoi (takeWhile (\<lambda>x. x \<noteq> CHR ''.'') s) of
                   (v, Some err) \<Rightarrow> Inl err
                 | (v, None) \<Rightarrow>
                     (case Atoi (drop 1 (dropWhile (\<lambda>x. x \<noteq> CHR ''.'') s)) of
                        (f, Some err) \<Rightarrow> Inl err
                      | (f, None) \<Rightarrow>
                          Inr (wrap64 (wrap64 (MilliMetre * v)
                                + wrap64 (ff_loop (length (drop 1 (dropWhile (\<lambda>x. x \<noteq> CHR ''.'') s))) MilliMetre * f)))))
              else (case Atoi s of
                      (v, Some err) \<Rightarrow> Inl err
                    | (v, None) \<Rightarrow> Inr (wrap64 (MilliMetre * v))))
        of Inl err \<Rightarrow> Inl err
         | Inr out \<Rightarrow> Inr (if neg then wrap64 (out * (- 1)) else out))"
proof -
  have hd: "s0 ! 0 = hd s0"
    using assms by (simp add: hd_conv_nth)
  show ?thesis
  proof (cases "hd s0 = CHR ''-''")
    case True
    then show ?thesis
      using assms
      by (cases "CHR ''.'' \<in> set (drop 1 s0)")
         (simp_all add: parseDistance_def hd slice_tail slice_upto slice_after IndexByte_found Let_def
            del: length_drop split: sum.splits prod.splits option.splits)
  next
    case False
    then show ?thesis
      using assms
      by (cases "CHR ''.'' \<in> set s0")
         (simp_all add: parseDistance_def hd slice_upto slice_after IndexByte_found Let_def
            split: sum.splits prod.splits option.splits)
  qed
qed

lemma parseDistance_nonempty: "s \<noteq> [] \<Longrightarrow> parseDistance s \<noteq> Inl Panic"
  by (auto simp: parseDistance_nonempty_eq Let_def
      split: prod.splits option.splits sum.splits if_splits dest: Atoi_error)

section \<open>What the patterns match\<close>

lemma lit_Some: "lit p s = Some r \<longleftrightarrow> s = p @ r"
  by (auto simp: lit_def HasPrefix_def) (metis append_take_drop_id)

lemma takeWhile_digits: "list_all is_digit ds \<Longrightarrow> r = [] \<or> \<not> is_digit (hd r) \<Longrightarrow> takeWhile is_digit (ds @ r) = ds"
  by (cases r) (auto simp: list_all_iff)

lemma dropWhile_digits: "list_all is_digit ds \<Longrightarrow> r = [] \<or> \<not> is_digit (hd r) \<Longrightarrow> dropWhile is_digit (ds @ r) = r"
  by (cases r) (auto simp: list_all_iff)

lemma digits1_Some:
  "digits1 s = Some (ds, r) \<longleftrightarrow> s = ds @ r \<and> digits ds \<and> (r = [] \<or> \<not> is_digit (hd r))"
proof
  assume "digits1 s = Some (ds, r)"
  then have ds: "ds = takeWhile is_digit s" and r: "r = dropWhile is_digit s" and ne: "ds \<noteq> []"
    by (auto simp: digits1_def Let_def split: if_splits)
  have "list_all is_digit ds"
    unfolding ds list_all_iff by (auto dest: set_takeWhileD)
  moreover have "r = [] \<or> \<not> is_digit (hd r)"
    unfolding r using hd_dropWhile [of is_digit s] by blast
  ultimately show "s = ds @ r \<and> digits ds \<and> (r = [] \<or> \<not> is_digit (hd r))"
    using ne by (simp add: ds r digits_def)
next
  assume "s = ds @ r \<and> digits ds \<and> (r = [] \<or> \<not> is_digit (hd r))"
  then show "digits1 s = Some (ds, r)"
    by (simp add: digits1_def digits_def takeWhile_digits dropWhile_digits)
qed

lemma decimal_group_SomeD:
  assumes "decimal_group s = Some (x, r)"
  shows "\<exists>sg ip fp. x = sg @ ip @ ''.'' @ fp \<and> s = x @ r \<and> (sg = [] \<or> sg = ''-'')
           \<and> digits ip \<and> digits fp \<and> (r = [] \<or> \<not> is_digit (hd r))"
proof -
  define sg where "sg = (if HasPrefix s ''-'' then ''-'' else [])"
  from assms obtain ip r1 r2 fp where
    a: "digits1 (drop (length sg) s) = Some (ip, r1)" and b: "lit ''.'' r1 = Some r2"
    and c: "digits1 r2 = Some (fp, r)" and x: "x = sg @ ip @ ''.'' @ fp"
    by (auto simp: decimal_group_def sg_def Let_def split: bind_splits)
  have s: "s = sg @ drop (length sg) s"
    by (cases s) (auto simp: sg_def HasPrefix_def)
  from a b c have "drop (length sg) s = ip @ ''.'' @ fp @ r"
    by (simp add: digits1_Some lit_Some)
  with s have "s = x @ r"
    by (simp add: x)
  moreover have "sg = [] \<or> sg = ''-''"
    by (simp add: sg_def)
  moreover have "digits ip" "digits fp" "r = [] \<or> \<not> is_digit (hd r)"
    using a c by (simp_all add: digits1_Some)
  ultimately show ?thesis
    using x by blast
qed

lemma decimal_group_nonempty: "decimal_group s \<noteq> Some ([], r)"
  by (auto dest: decimal_group_SomeD)

lemma re_M114_nonempty:
  "re_M114 resp = Some (x, y, z, a, b) \<Longrightarrow> x \<noteq> [] \<and> y \<noteq> [] \<and> z \<noteq> []"
  by (auto simp: re_M114_def decimal_group_nonempty split: bind_splits)

text \<open>
  C10.  On every string that is not empty \<open>parseDistance\<close> returns a value or an error
  of \<open>Atoi\<close>, never a run-time fault: its index and its three slices are in bounds.  On
  the empty string the read of \<^verbatim>\<open>s[0]\<close> is a fault.  The three decimal fields that the
  pattern of \<^verbatim>\<open>M114\<close> hands to \<open>parseDistance\<close> are never empty.
\<close>

theorem parseDistance_indexing:
  "(s \<noteq> [] \<longrightarrow> parseDistance s \<noteq> Inl Panic) \<and> parseDistance [] = Inl Panic \<and>
   (re_M114 resp = Some (x, y, z, a, b) \<longrightarrow>
      parseDistance x \<noteq> Inl Panic \<and> parseDistance y \<noteq> Inl Panic \<and> parseDistance z \<noteq> Inl Panic)"
  using re_M114_nonempty [of resp x y z a b]
  by (auto simp: parseDistance_nonempty) (simp add: parseDistance_def)

theorem parseDistance_indexing_witness:
  "''-12.340'' \<noteq> [] \<and> parseDistance ''-12.340'' \<noteq> Inl Panic \<and>
   re_M114 ''X:1.5 Y:-2.25 Z:3.0 A:0 B:1'' = Some (''1.5'', ''-2.25'', ''3.0'', ''0'', ''1'') \<and>
   parseDistance ''1.5'' \<noteq> Inl Panic \<and> parseDistance ''-2.25'' \<noteq> Inl Panic \<and>
   parseDistance ''3.0'' \<noteq> Inl Panic"
proof -
  have m: "re_M114 ''X:1.5 Y:-2.25 Z:3.0 A:0 B:1'' = Some (''1.5'', ''-2.25'', ''3.0'', ''0'', ''1'')"
    by code_simp
  have ne: "''-12.340'' \<noteq> []"
    by simp
  show ?thesis
    using m ne
      parseDistance_indexing [of "''-12.340''" "''X:1.5 Y:-2.25 Z:3.0 A:0 B:1''"
        "''1.5''" "''-2.25''" "''3.0''" "''0''" "''1''"]
    by blast
qed

end
